theory Spec2Isabelle
  imports Complex_Main "HOL-Library.AList" "HOL-Library.Sublist"
begin

section \<open>Conventions of the embedding\<close>

text \<open>
  The Python sources under \<^verbatim>\<open>v2/\<close> are embedded as HOL functions.
  \<^item> A Python \<^verbatim>\<open>float\<close> is an exact rational (\<^typ>\<open>rat\<close>): the decimal literals of the
    source (\<^verbatim>\<open>0.30\<close>, \<^verbatim>\<open>0.02\<close>, ...) are the fractions they denote and no rounding is
    modelled.
  \<^item> A \<^verbatim>\<open>datetime\<close> / pandas \<^verbatim>\<open>Timestamp\<close> is an \<^typ>\<open>int\<close>, the number of microseconds
    since a fixed epoch; the representable range of \<^verbatim>\<open>datetime\<close> is not modelled.
    \<^verbatim>\<open>timedelta(days=n)\<close> is \<open>n\<close> days of microseconds and the \<^verbatim>\<open>.days\<close> attribute of a
    difference is the floor division by one day.
  \<^item> A \<^verbatim>\<open>DataFrame\<close> is the list of its rows, in row order; a row carries its \<^verbatim>\<open>Date\<close>
    and the remaining columns as one value of an arbitrary type.
  \<^item> A \<^verbatim>\<open>dict\<close> is an association list in insertion order; assignment to a key is
    \<^const>\<open>AList.update\<close>, which keeps the position of an existing key and appends a new one.
  \<^item> A pattern function is a total predicate on rows.
\<close>

section \<open>Dates and rows\<close>

definition timedelta :: "int \<Rightarrow> int" where
  "timedelta days = days * 86400000000"

definition timedelta_days :: "int \<Rightarrow> int" where
  "timedelta_days delta = delta div 86400000000"

record 'a match_row =
  Date :: int
  stats :: 'a

section \<open>\<^verbatim>\<open>utils/confidence.py\<close>: \<^verbatim>\<open>calculate_multi_timeframe_confidence\<close>\<close>

subsection \<open>Choice of the timeframe table (lines 52--73)\<close>

definition default_timeframes :: "(int \<times> rat) list" where
  "default_timeframes =
     [(7, 30 / 100), (14, 23 / 100), (30, 18 / 100),
      (90, 14 / 100), (365, 10 / 100), (730, 5 / 100)]"

text \<open>
  \<^verbatim>\<open>data['Date'].min()\<close>: the least date of the frame, over all of its rows. On an empty
  frame pandas answers \<^verbatim>\<open>NaT\<close>, whose \<^verbatim>\<open>.days\<close> is NaN, so that the comparison
  \<^verbatim>\<open>all_history_days > 730\<close> is false; \<open>None\<close> stands for \<^verbatim>\<open>NaT\<close>.
\<close>

definition earliest_date :: "'a match_row list \<Rightarrow> int option" where
  "earliest_date data = (if data = [] then None else Some (min_list (map Date data)))"

definition select_timeframes ::
  "'a match_row list \<Rightarrow> int \<Rightarrow> (int \<times> rat) list option \<Rightarrow> bool \<Rightarrow> (int \<times> rat) list" where
  "select_timeframes data match_date custom_timeframes use_all_history =
     (case custom_timeframes of
        Some (tf # tfs) \<Rightarrow> tf # tfs
      | _ \<Rightarrow>
          if use_all_history then
            (case earliest_date data of
               None \<Rightarrow> default_timeframes
             | Some earliest \<Rightarrow>
                 if timedelta_days (match_date - earliest) > 730
                 then AList.update 99999 0 default_timeframes
                 else default_timeframes)
          else default_timeframes)"

subsection \<open>Success rate per timeframe (lines 75--96)\<close>

definition tf_data :: "'a match_row list \<Rightarrow> int \<Rightarrow> int \<Rightarrow> 'a match_row list" where
  "tf_data data match_date days =
     (if days = 99999 then filter (\<lambda>r. Date r < match_date) data
      else let cutoff = match_date - timedelta days
           in filter (\<lambda>r. cutoff \<le> Date r \<and> Date r < match_date) data)"

text \<open>\<^verbatim>\<open>tf_data.apply(pattern_fn, axis=1).mean()\<close>: the fraction of rows on which the pattern holds.\<close>

definition success_rate :: "('a match_row \<Rightarrow> bool) \<Rightarrow> 'a match_row list \<Rightarrow> rat" where
  "success_rate pattern_fn rows = of_nat (length (filter pattern_fn rows)) / of_nat (length rows)"

record timeframe_result =
  matches :: int
  success :: rat
  weight :: rat

fun timeframe_loop ::
  "'a match_row list \<Rightarrow> int \<Rightarrow> ('a match_row \<Rightarrow> bool) \<Rightarrow> (int \<times> rat) list \<Rightarrow>
   (int \<times> timeframe_result) list \<times> rat list \<Rightarrow> (int \<times> timeframe_result) list \<times> rat list" where
  "timeframe_loop data match_date pattern_fn [] acc = acc"
| "timeframe_loop data match_date pattern_fn ((days, w) # timeframes) (timeframe_results, confidences) =
     (let rows = tf_data data match_date days in
      if length rows > 0 then
        let rate = success_rate pattern_fn rows in
        timeframe_loop data match_date pattern_fn timeframes
          (AList.update days \<lparr>matches = int (length rows), success = rate, weight = w\<rparr> timeframe_results,
           if w > 0 then confidences @ [rate] else confidences)
      else timeframe_loop data match_date pattern_fn timeframes (timeframe_results, confidences))"

subsection \<open>Weighted ensemble (lines 102--111)\<close>

fun ensemble_loop :: "(int \<times> timeframe_result) list \<Rightarrow> rat \<times> rat \<Rightarrow> rat \<times> rat" where
  "ensemble_loop [] acc = acc"
| "ensemble_loop ((days, result) # rest) (ensemble_confidence, total_weight) =
     (if weight result > 0
      then ensemble_loop rest
             (ensemble_confidence + success result * weight result, total_weight + weight result)
      else ensemble_loop rest (ensemble_confidence, total_weight))"

definition weighted_ensemble :: "(int \<times> timeframe_result) list \<Rightarrow> rat" where
  "weighted_ensemble timeframe_results =
     (let (ensemble_confidence, total_weight) = ensemble_loop timeframe_results (0, 0)
      in if total_weight > 0 then ensemble_confidence / total_weight else 1 / 2)"

subsection \<open>Trend analysis (lines 113--132)\<close>

text \<open>\<^verbatim>\<open>timeframe_results.get(k, {}).get('success', default)\<close> and the same for \<^verbatim>\<open>'matches'\<close>.\<close>

definition get_success :: "(int \<times> timeframe_result) list \<Rightarrow> int \<Rightarrow> rat \<Rightarrow> rat" where
  "get_success timeframe_results k dflt =
     (case map_of timeframe_results k of Some r \<Rightarrow> success r | None \<Rightarrow> dflt)"

definition get_matches :: "(int \<times> timeframe_result) list \<Rightarrow> int \<Rightarrow> int" where
  "get_matches timeframe_results k =
     (case map_of timeframe_results k of Some r \<Rightarrow> matches r | None \<Rightarrow> 0)"

datatype trend_category = strong_uptrend | downtrend | stable

definition trend_analysis :: "rat \<Rightarrow> rat \<Rightarrow> trend_category \<times> rat" where
  "trend_analysis trend_7_vs_30 trend_30_vs_season =
     (if trend_7_vs_30 > 3 / 100 \<and> trend_30_vs_season \<ge> - (2 / 100) then (strong_uptrend, 2 / 100)
      else if trend_7_vs_30 < - (3 / 100) \<and> trend_30_vs_season \<le> 2 / 100 then (downtrend, - (2 / 100))
      else (stable, 0))"

subsection \<open>Consistency check (lines 134--145)\<close>

text \<open>
  \<^verbatim>\<open>np.std\<close> is the population standard deviation, the square root of the mean squared
  deviation. The square root of a rational need not be rational, so the model keeps the
  variance: for a standard deviation \<open>s \<ge> 0\<close>, \<open>s < 0.03\<close> is \<open>s\<^sup>2 < 0.0009\<close> and \<open>s < 0.05\<close> is
  \<open>s\<^sup>2 < 0.0025\<close>. The debug dictionary's \<^verbatim>\<open>std_dev\<close> is carried as its square.
\<close>

definition mean :: "rat list \<Rightarrow> rat" where
  "mean xs = sum_list xs / of_nat (length xs)"

definition variance :: "rat list \<Rightarrow> rat" where
  "variance xs = mean (map (\<lambda>x. (x - mean xs)\<^sup>2) xs)"

definition std_dev_squared :: "rat list \<Rightarrow> rat" where
  "std_dev_squared confidences = (if length confidences > 1 then variance confidences else 0)"

datatype consistency_category = high | moderate | low

definition consistency_check :: "rat \<Rightarrow> consistency_category \<times> rat" where
  "consistency_check var =
     (if var < 9 / 10000 then (high, 1 / 100)
      else if var < 25 / 10000 then (moderate, 0)
      else (low, - (2 / 100)))"

subsection \<open>Sample size validation (lines 147--159)\<close>

datatype sample_category = sufficient | adequate | insufficient

definition sample_size_validation :: "int \<Rightarrow> int \<Rightarrow> int \<Rightarrow> int \<Rightarrow> sample_category \<times> rat" where
  "sample_size_validation min_matches_7d min_matches_30d m7 m30 =
     (if m7 \<ge> min_matches_7d \<and> m30 \<ge> min_matches_30d then (sufficient, 0)
      else if m7 \<ge> max 2 (min_matches_7d - 1) \<and> m30 \<ge> max 8 (min_matches_30d - 2)
           then (adequate, - (2 / 100))
      else (insufficient, - (5 / 100)))"

subsection \<open>The function (lines 15--188)\<close>

record debug_info =
  ensemble_confidence :: rat
  final_confidence :: rat
  timeframe_results :: "(int \<times> timeframe_result) list"
  trend :: trend_category
  trend_adjustment :: rat
  trend_7_vs_30 :: rat
  trend_30_vs_season :: rat
  trend_season_vs_all :: rat
  consistency :: consistency_category
  consistency_adjustment :: rat
  std_dev_sq :: rat
  sample_quality :: sample_category
  sample_adjustment :: rat
  matches_7d :: int
  matches_30d :: int
  all_history_matches :: int
  all_history_success :: rat

text \<open>The second component of the result: the \<^verbatim>\<open>{'error': ...}\<close> dictionary or the debug dictionary.\<close>

datatype breakdown = Error string | Info debug_info

definition clamp01 :: "rat \<Rightarrow> rat" where
  "clamp01 x = max 0 (min 1 x)"

definition calculate_multi_timeframe_confidence ::
  "'a match_row list \<Rightarrow> int \<Rightarrow> ('a match_row \<Rightarrow> bool) \<Rightarrow> int \<Rightarrow> int \<Rightarrow>
   (int \<times> rat) list option \<Rightarrow> bool \<Rightarrow> rat \<times> breakdown" where
  "calculate_multi_timeframe_confidence data match_date pattern_fn min_matches_7d min_matches_30d
      custom_timeframes use_all_history =
     (let timeframes = select_timeframes data match_date custom_timeframes use_all_history;
          (results, confidences) = timeframe_loop data match_date pattern_fn timeframes ([], [])
      in if results = [] then (1 / 2, Error ''No historical data available'')
         else
           let ensemble = weighted_ensemble results;
               recent_7 = get_success results 7 ensemble;
               recent_30 = get_success results 30 ensemble;
               season = get_success results 365 ensemble;
               all_history = get_success results 99999 ensemble;
               t_7_vs_30 = recent_7 - recent_30;
               t_30_vs_season = recent_30 - season;
               t_season_vs_all = (if map_of results 99999 \<noteq> None then season - all_history else 0);
               (tr, tr_adj) = trend_analysis t_7_vs_30 t_30_vs_season;
               var = std_dev_squared confidences;
               (cons, cons_adj) = consistency_check var;
               m7 = get_matches results 7;
               m30 = get_matches results 30;
               (quality, sample_adj) = sample_size_validation min_matches_7d min_matches_30d m7 m30;
               final = clamp01 (ensemble + tr_adj + cons_adj + sample_adj)
           in (final,
               Info \<lparr>ensemble_confidence = ensemble, final_confidence = final,
                     timeframe_results = results, trend = tr, trend_adjustment = tr_adj,
                     trend_7_vs_30 = t_7_vs_30, trend_30_vs_season = t_30_vs_season,
                     trend_season_vs_all = t_season_vs_all, consistency = cons,
                     consistency_adjustment = cons_adj, std_dev_sq = var,
                     sample_quality = quality, sample_adjustment = sample_adj,
                     matches_7d = m7, matches_30d = m30,
                     all_history_matches = get_matches results 99999,
                     all_history_success = all_history\<rparr>))"

subsection \<open>The ensemble as the specification words it\<close>

text \<open>
  The specification's reading of the ensemble, kept apart from the code's loops: the windows
  used are those of the table with a positive weight and at least one match, and the ensemble
  is the sum of weight times hit rate over them divided by the sum of their weights.
\<close>

definition hit_rate :: "'a match_row list \<Rightarrow> int \<Rightarrow> ('a match_row \<Rightarrow> bool) \<Rightarrow> int \<Rightarrow> rat" where
  "hit_rate data match_date pattern_fn days = success_rate pattern_fn (tf_data data match_date days)"

definition windows_used :: "'a match_row list \<Rightarrow> int \<Rightarrow> (int \<times> rat) list \<Rightarrow> (int \<times> rat) list" where
  "windows_used data match_date timeframes =
     filter (\<lambda>(days, w). w > 0 \<and> tf_data data match_date days \<noteq> []) timeframes"

definition spec_ensemble ::
  "'a match_row list \<Rightarrow> int \<Rightarrow> ('a match_row \<Rightarrow> bool) \<Rightarrow> (int \<times> rat) list \<Rightarrow> rat" where
  "spec_ensemble data match_date pattern_fn timeframes =
     (\<Sum>(days, w) \<leftarrow> windows_used data match_date timeframes.
         w * hit_rate data match_date pattern_fn days)
     / (\<Sum>(days, w) \<leftarrow> windows_used data match_date timeframes. w)"

text \<open>
  The specification's reading of the sample-size rule: sufficient when both counts reach
  their minimums, adequate when the 7-day count is within one and the 30-day count within
  two of its minimum, insufficient otherwise.
\<close>

definition spec_sample_adjustment :: "int \<Rightarrow> int \<Rightarrow> int \<Rightarrow> int \<Rightarrow> rat" where
  "spec_sample_adjustment min_matches_7d min_matches_30d m7 m30 =
     (if m7 \<ge> min_matches_7d \<and> m30 \<ge> min_matches_30d then 0
      else if m7 \<ge> min_matches_7d - 1 \<and> m30 \<ge> min_matches_30d - 2 then - (2 / 100)
      else - (5 / 100))"

subsection \<open>What the timeframe loop accumulates\<close>

text \<open>
  Closed forms of the two accumulators of the timeframe loop for a table with distinct keys:
  one entry per non-empty window, and one confidence per non-empty window of positive weight.
\<close>

definition loop_results ::
  "'a match_row list \<Rightarrow> int \<Rightarrow> ('a match_row \<Rightarrow> bool) \<Rightarrow> (int \<times> rat) list \<Rightarrow> (int \<times> timeframe_result) list" where
  "loop_results data match_date f tfs =
     map (\<lambda>(days, w). (days, \<lparr>matches = int (length (tf_data data match_date days)),
                               success = hit_rate data match_date f days, weight = w\<rparr>))
       (filter (\<lambda>(days, w). tf_data data match_date days \<noteq> []) tfs)"

definition loop_confidences ::
  "'a match_row list \<Rightarrow> int \<Rightarrow> ('a match_row \<Rightarrow> bool) \<Rightarrow> (int \<times> rat) list \<Rightarrow> rat list" where
  "loop_confidences data match_date f tfs =
     map (\<lambda>(days, w). hit_rate data match_date f days) (windows_used data match_date tfs)"

section \<open>\<^verbatim>\<open>patterns/risk_adjustment.py\<close>\<close>

definition PATTERN_RISK_PENALTIES :: "(string \<times> rat) list" where
  "PATTERN_RISK_PENALTIES =
     [(''over_3_5_goals'', 10 / 100),
      (''total_over_3_5_goals'', 10 / 100),
      (''over_2_5_goals'', 6 / 100),
      (''total_over_2_5_goals'', 6 / 100),
      (''under_2_5_goals'', 5 / 100),
      (''total_under_2_5_goals'', 5 / 100),
      (''over_1_5_goals'', 4 / 100),
      (''total_over_1_5_goals'', 4 / 100),
      (''under_1_5_goals'', 5 / 100),
      (''over_0_5_goals'', 2 / 100),
      (''total_over_0_5_goals'', 2 / 100),
      (''home_over_2_5_goals'', 7 / 100),
      (''home_over_1_5_goals'', 5 / 100),
      (''home_over_0_5_goals'', 2 / 100),
      (''home_under_1_5_goals'', 6 / 100),
      (''away_over_2_5_goals'', 8 / 100),
      (''away_over_1_5_goals'', 6 / 100),
      (''away_over_0_5_goals'', 3 / 100),
      (''away_under_1_5_goals'', 5 / 100),
      (''over_11_5_corners'', 4 / 100),
      (''over_10_5_corners'', 4 / 100),
      (''total_over_10_5_corners'', 4 / 100),
      (''over_9_5_corners'', 3 / 100),
      (''total_over_9_5_corners'', 3 / 100),
      (''over_8_5_corners'', 3 / 100),
      (''total_over_8_5_corners'', 3 / 100),
      (''over_7_5_corners'', 2 / 100),
      (''total_over_7_5_corners'', 2 / 100),
      (''total_under_7_5_corners'', 3 / 100),
      (''over_2_5_corners'', 2 / 100),
      (''over_0_5_corners'', 1 / 100),
      (''home_over_5_5_corners'', 4 / 100),
      (''home_over_4_5_corners'', 3 / 100),
      (''home_over_3_5_corners'', 3 / 100),
      (''home_over_2_5_corners'', 2 / 100),
      (''home_over_1_5_corners'', 2 / 100),
      (''home_over_0_5_corners'', 1 / 100),
      (''away_over_5_5_corners'', 5 / 100),
      (''away_over_4_5_corners'', 4 / 100),
      (''away_over_3_5_corners'', 3 / 100),
      (''away_over_2_5_corners'', 2 / 100),
      (''away_over_1_5_corners'', 2 / 100),
      (''away_over_0_5_corners'', 1 / 100),
      (''over_5_5_cards'', 6 / 100),
      (''total_over_5_5_cards'', 6 / 100),
      (''over_4_5_cards'', 5 / 100),
      (''total_over_4_5_cards'', 5 / 100),
      (''over_3_5_cards'', 4 / 100),
      (''total_over_3_5_cards'', 4 / 100),
      (''over_2_5_cards'', 4 / 100),
      (''total_over_2_5_cards'', 4 / 100),
      (''over_1_5_cards'', 3 / 100),
      (''over_0_5_cards'', 2 / 100),
      (''total_over_0_5_cards'', 2 / 100),
      (''home_over_2_5_cards'', 5 / 100),
      (''home_over_1_5_cards'', 4 / 100),
      (''home_over_0_5_cards'', 2 / 100),
      (''away_over_2_5_cards'', 5 / 100),
      (''away_over_1_5_cards'', 4 / 100),
      (''away_over_0_5_cards'', 2 / 100),
      (''over_20_5_shots'', 5 / 100),
      (''over_15_5_shots'', 4 / 100),
      (''over_10_5_shots'', 3 / 100),
      (''home_over_10_5_shots'', 4 / 100),
      (''home_over_5_5_shots'', 3 / 100),
      (''away_over_10_5_shots'', 5 / 100),
      (''away_over_5_5_shots'', 4 / 100),
      (''home_win'', 8 / 100),
      (''away_win'', 9 / 100),
      (''draw'', 10 / 100)]"

definition DEFAULT_RISK_PENALTY :: rat where
  "DEFAULT_RISK_PENALTY = 5 / 100"

definition get_pattern_risk_penalty :: "string \<Rightarrow> rat" where
  "get_pattern_risk_penalty pattern =
     (case map_of PATTERN_RISK_PENALTIES pattern of Some p \<Rightarrow> p | None \<Rightarrow> DEFAULT_RISK_PENALTY)"

definition calculate_risk_adjusted_confidence :: "rat \<Rightarrow> string \<Rightarrow> rat" where
  "calculate_risk_adjusted_confidence conf pattern =
     (let penalty = get_pattern_risk_penalty pattern;
          adjusted = conf - penalty
      in max 0 (min 1 adjusted))"

section \<open>\<^verbatim>\<open>patterns/registry.py\<close>\<close>

datatype PatternCategory = GOALS | CORNERS | CARDS

text \<open>
  The value passed as \<^verbatim>\<open>label_fn\<close> to the constructor: Python accepts any object there and
  \<^verbatim>\<open>__post_init__\<close> tests it with \<^verbatim>\<open>callable\<close>. A constructed pattern holds the function.
\<close>

datatype 'a label_arg = Callable "'a match_row \<Rightarrow> bool" | NotCallable

record 'a Pattern =
  name :: string
  category :: PatternCategory
  label_fn :: "'a match_row \<Rightarrow> bool"
  default_threshold :: rat
  min_matches :: int
  description :: string

text \<open>Every failure of this module is a \<^verbatim>\<open>ValueError\<close>; the constructor records which message.\<close>

datatype value_error =
    label_fn_must_be_callable string
  | threshold_must_be_between_0_and_1 string
  | min_matches_must_be_at_least_1 string
  | is_already_registered string

text \<open>\<^verbatim>\<open>Pattern(...)\<close>: the dataclass constructor followed by \<^verbatim>\<open>__post_init__\<close> (lines 21--28).\<close>

definition Pattern_init ::
  "string \<Rightarrow> PatternCategory \<Rightarrow> 'a label_arg \<Rightarrow> rat \<Rightarrow> int \<Rightarrow> string \<Rightarrow> value_error + 'a Pattern" where
  "Pattern_init nm cat fn thr mm descr =
     (case fn of
        NotCallable \<Rightarrow> Inl (label_fn_must_be_callable nm)
      | Callable f \<Rightarrow>
          if \<not> (0 \<le> thr \<and> thr \<le> 1) then Inl (threshold_must_be_between_0_and_1 nm)
          else if mm < 1 then Inl (min_matches_must_be_at_least_1 nm)
          else Inr \<lparr>name = nm, category = cat, label_fn = f, default_threshold = thr,
                    min_matches = mm, description = descr\<rparr>)"

text \<open>\<^verbatim>\<open>PatternRegistry\<close>: the dictionary \<^verbatim>\<open>_patterns\<close>, here the registry itself.\<close>

type_synonym 'a PatternRegistry = "(string \<times> 'a Pattern) list"

definition PatternRegistry_register :: "'a PatternRegistry \<Rightarrow> 'a Pattern \<Rightarrow> value_error + 'a PatternRegistry" where
  "PatternRegistry_register patterns pattern =
     (if name pattern \<in> fst ` set patterns then Inl (is_already_registered (name pattern))
      else Inr (AList.update (name pattern) pattern patterns))"

definition get_pattern :: "'a PatternRegistry \<Rightarrow> string \<Rightarrow> 'a Pattern option" where
  "get_pattern patterns nm = map_of patterns nm"

definition list_patterns :: "'a PatternRegistry \<Rightarrow> string list" where
  "list_patterns patterns = map fst patterns"

text \<open>
  \<^verbatim>\<open>register_pattern\<close> (lines 99--126): build the pattern, then register it; the global
  registry is passed in and returned.
\<close>

definition register_pattern ::
  "'a PatternRegistry \<Rightarrow> string \<Rightarrow> PatternCategory \<Rightarrow> 'a label_arg \<Rightarrow> rat \<Rightarrow> int \<Rightarrow> string \<Rightarrow>
   value_error + 'a PatternRegistry" where
  "register_pattern registry nm cat fn thr mm descr =
     (case Pattern_init nm cat fn thr mm descr of
        Inl e \<Rightarrow> Inl e
      | Inr pattern \<Rightarrow> PatternRegistry_register registry pattern)"

section \<open>\<^verbatim>\<open>simple_romanian_predictor.py\<close>\<close>

definition ROMANIAN_TIMEFRAME_WEIGHTS :: "(int \<times> rat) list" where
  "ROMANIAN_TIMEFRAME_WEIGHTS =
     [(7, 15 / 100), (14, 15 / 100), (30, 20 / 100), (90, 25 / 100), (365, 25 / 100)]"

record BestBet =
  pattern_name :: string
  confidence :: rat
  risk_adjusted_confidence :: rat
  threshold :: rat

text \<open>The table \<^verbatim>\<open>self.thresholds\<close> that \<^verbatim>\<open>__init__\<close> installs (lines 52--68).\<close>

definition romanian_thresholds :: "(string \<times> rat) list" where
  "romanian_thresholds =
     [(''home_over_0_5_goals'', 55 / 100),
      (''away_over_0_5_goals'', 55 / 100),
      (''home_over_0_5_cards'', 55 / 100),
      (''away_over_0_5_cards'', 55 / 100),
      (''home_over_1_5_goals'', 65 / 100),
      (''away_over_1_5_goals'', 65 / 100),
      (''total_over_1_5_goals'', 58 / 100),
      (''total_over_2_5_goals'', 62 / 100),
      (''total_under_2_5_goals'', 70 / 100),
      (''both_teams_to_score'', 60 / 100),
      (''home_over_2_5_corners'', 65 / 100),
      (''away_over_2_5_corners'', 65 / 100),
      (''total_over_8_5_corners'', 60 / 100),
      (''home_over_1_5_cards'', 65 / 100),
      (''away_over_1_5_cards'', 65 / 100)]"

text \<open>\<^verbatim>\<open>historical_data.tail(30)\<close>: the last 30 rows, or all of them when there are fewer.\<close>

definition tail :: "nat \<Rightarrow> 'b list \<Rightarrow> 'b list" where
  "tail n rows = drop (length rows - n) rows"

text \<open>
  The confidence of one pattern (lines 106--124): the ensemble, or with
  \<^verbatim>\<open>use_ensemble=False\<close> the legacy 30-row average, where \<open>None\<close> is the \<^verbatim>\<open>continue\<close> taken
  when fewer than 10 rows are available.
\<close>

definition pattern_confidence ::
  "'a match_row list \<Rightarrow> int \<Rightarrow> bool \<Rightarrow> 'a Pattern \<Rightarrow> rat option" where
  "pattern_confidence historical_data match_date use_ensemble pattern =
     (if use_ensemble then
        Some (fst (calculate_multi_timeframe_confidence historical_data match_date
                     (label_fn pattern) 2 8 (Some ROMANIAN_TIMEFRAME_WEIGHTS) True))
      else
        let recent_data = tail 30 historical_data in
        if length recent_data < 10 then None
        else Some (success_rate (label_fn pattern) recent_data))"

text \<open>The three loop variables \<^verbatim>\<open>best_pattern\<close>, \<^verbatim>\<open>best_confidence\<close>, \<^verbatim>\<open>best_risk_adjusted\<close>.\<close>

type_synonym best_state = "string option \<times> rat \<times> rat"

text \<open>
  The loop of \<^verbatim>\<open>predict_match\<close> (lines 99--133). \<^verbatim>\<open>list_patterns\<close> enumerates the keys of
  the registry's dictionary and \<^verbatim>\<open>get_pattern\<close> fetches the value of each, so the loop runs
  over the registry's items in insertion order.
\<close>

fun predict_loop ::
  "(string \<times> rat) list \<Rightarrow> 'a match_row list \<Rightarrow> int \<Rightarrow> bool \<Rightarrow>
   (string \<times> 'a Pattern) list \<Rightarrow> best_state \<Rightarrow> best_state" where
  "predict_loop thresholds historical_data match_date use_ensemble [] best = best"
| "predict_loop thresholds historical_data match_date use_ensemble ((pname, pattern) # rest)
      (best_pattern, best_confidence, best_risk_adjusted) =
     (case map_of thresholds pname of
        None \<Rightarrow> predict_loop thresholds historical_data match_date use_ensemble rest
                  (best_pattern, best_confidence, best_risk_adjusted)
      | Some thr \<Rightarrow>
          (case pattern_confidence historical_data match_date use_ensemble pattern of
             None \<Rightarrow> predict_loop thresholds historical_data match_date use_ensemble rest
                       (best_pattern, best_confidence, best_risk_adjusted)
           | Some conf \<Rightarrow>
               let risk_adjusted = calculate_risk_adjusted_confidence conf pname in
               if risk_adjusted \<ge> thr \<and> risk_adjusted > best_risk_adjusted
               then predict_loop thresholds historical_data match_date use_ensemble rest
                      (Some pname, conf, risk_adjusted)
               else predict_loop thresholds historical_data match_date use_ensemble rest
                      (best_pattern, best_confidence, best_risk_adjusted)))"

text \<open>
  \<^verbatim>\<open>SimpleRomanianPredictor.predict_match\<close> (lines 70--143); \<^verbatim>\<open>self.registry\<close> and
  \<^verbatim>\<open>self.thresholds\<close> are the first two arguments. The test \<^verbatim>\<open>if best_pattern:\<close> is false
  for \<^verbatim>\<open>None\<close> and for the empty string. The loop sets \<^verbatim>\<open>best_pattern\<close> only to keys of
  \<^verbatim>\<open>self.thresholds\<close>, so the final \<^verbatim>\<open>self.thresholds[best_pattern]\<close> finds its key; the
  branch for a missing key is never taken.
\<close>

definition predict_match ::
  "'a PatternRegistry \<Rightarrow> (string \<times> rat) list \<Rightarrow> 'a match_row list \<Rightarrow> int \<Rightarrow> bool \<Rightarrow> BestBet option" where
  "predict_match registry thresholds historical_data match_date use_ensemble =
     (case predict_loop thresholds historical_data match_date use_ensemble registry (None, 0, 0) of
        (Some best_pattern, best_confidence, best_risk_adjusted) \<Rightarrow>
          if best_pattern \<noteq> [] then
            (case map_of thresholds best_pattern of
               Some thr \<Rightarrow> Some \<lparr>pattern_name = best_pattern, confidence = best_confidence,
                                 risk_adjusted_confidence = best_risk_adjusted, threshold = thr\<rparr>
             | None \<Rightarrow> None)
          else None
      | (None, _, _) \<Rightarrow> None)"

text \<open>
  The patterns the loop evaluates, each with its confidence, risk-adjusted confidence and
  threshold, and among them the candidates: those whose risk-adjusted confidence reaches
  the threshold.
\<close>

definition evaluations ::
  "'a PatternRegistry \<Rightarrow> (string \<times> rat) list \<Rightarrow> 'a match_row list \<Rightarrow> int \<Rightarrow> bool \<Rightarrow> BestBet list" where
  "evaluations registry thresholds historical_data match_date use_ensemble =
     concat (map (\<lambda>(pname, pattern).
        (case (map_of thresholds pname,
               pattern_confidence historical_data match_date use_ensemble pattern) of
           (Some thr, Some conf) \<Rightarrow>
             [\<lparr>pattern_name = pname, confidence = conf,
               risk_adjusted_confidence = calculate_risk_adjusted_confidence conf pname,
               threshold = thr\<rparr>]
         | _ \<Rightarrow> [])) registry)"

definition candidates :: "BestBet list \<Rightarrow> BestBet list" where
  "candidates evals = filter (\<lambda>e. risk_adjusted_confidence e \<ge> threshold e) evals"

text \<open>
  The same selection as a loop over the evaluated patterns alone; the predictor's loop is
  shown below to be this loop over \<^const>\<open>evaluations\<close>.
\<close>

fun select_loop :: "BestBet list \<Rightarrow> best_state \<Rightarrow> best_state" where
  "select_loop [] best = best"
| "select_loop (e # es) (best_pattern, best_confidence, best_risk_adjusted) =
     (if risk_adjusted_confidence e \<ge> threshold e \<and> risk_adjusted_confidence e > best_risk_adjusted
      then select_loop es (Some (pattern_name e), confidence e, risk_adjusted_confidence e)
      else select_loop es (best_pattern, best_confidence, best_risk_adjusted))"

section \<open>\<^verbatim>\<open>simple_premier_league_predictor.py\<close>: the selection of \<^verbatim>\<open>predict\<close>\<close>

text \<open>
  One pattern as the loop of \<^verbatim>\<open>predict\<close> has evaluated it (lines 300--348): its name, the
  calibrated confidence and the threshold after the corner-style adjustment. The boosts,
  the calibration and the threshold adjustment are league-specific and enter here as given
  values; the early exits of \<^verbatim>\<open>predict\<close> before the loop are not part of this stage.
\<close>

record pl_evaluation =
  pattern :: string
  pl_confidence :: rat
  base_threshold :: rat
  adjusted_threshold :: rat

text \<open>
  \<^verbatim>\<open>predictions.sort(key=..., reverse=True)\<close>: a stable sort, descending in the confidence.
\<close>

definition sort_by_confidence_desc :: "pl_evaluation list \<Rightarrow> pl_evaluation list" where
  "sort_by_confidence_desc predictions = sort_key (\<lambda>p. - pl_confidence p) predictions"

text \<open>\<^verbatim>\<open>max(predictions, key=...)\<close>: the first element whose key is maximal.\<close>

fun max_by :: "('b \<Rightarrow> rat) \<Rightarrow> 'b \<Rightarrow> 'b list \<Rightarrow> 'b" where
  "max_by key best [] = best"
| "max_by key best (x # xs) = (if key x > key best then max_by key x xs else max_by key best xs)"

definition pl_risk_adjusted :: "pl_evaluation \<Rightarrow> rat" where
  "pl_risk_adjusted p = calculate_risk_adjusted_confidence (pl_confidence p) (pattern p)"

text \<open>Lines 350--414: filter by the adjusted threshold, sort, pick by risk-adjusted confidence.\<close>

definition predict_select :: "pl_evaluation list \<Rightarrow> BestBet option" where
  "predict_select evaluated =
     (let predictions = filter (\<lambda>p. pl_confidence p \<ge> adjusted_threshold p) evaluated;
          predictions = sort_by_confidence_desc predictions
      in case predictions of
           [] \<Rightarrow> None
         | p # ps \<Rightarrow>
             let best_bet = max_by pl_risk_adjusted p ps
             in Some \<lparr>pattern_name = pattern best_bet, confidence = pl_confidence best_bet,
                      risk_adjusted_confidence = pl_risk_adjusted best_bet,
                      threshold = adjusted_threshold best_bet\<rparr>)"

section \<open>\<^verbatim>\<open>backtest_all_leagues_14days.py\<close>: the historical view\<close>

text \<open>Line 69: \<^verbatim>\<open>predictor.data[predictor.data['Date'] < match['Date']]\<close>.\<close>

definition historical_view :: "'a match_row list \<Rightarrow> 'a match_row \<Rightarrow> 'a match_row list" where
  "historical_view data match = filter (\<lambda>r. Date r < Date match) data"


section \<open>Auxiliary lemmas\<close>

subsection \<open>Windows and the timeframe table under appended rows\<close>

lemma clamp01_range: "0 \<le> clamp01 x \<and> clamp01 x \<le> 1"
  by (simp add: clamp01_def)

lemma tf_data_append:
  assumes "\<forall>r\<in>set extra. match_date \<le> Date r"
  shows "tf_data (data @ extra) match_date days = tf_data data match_date days"
proof -
  have "filter (\<lambda>r. Date r < match_date) extra = []"
    using assms by (auto simp: filter_empty_conv)
  moreover have "filter (\<lambda>r. c \<le> Date r \<and> Date r < match_date) extra = []" for c
    using assms by (auto simp: filter_empty_conv)
  ultimately show ?thesis by (simp add: tf_data_def Let_def)
qed

lemma timeframe_loop_cong:
  assumes "\<And>days. tf_data data' match_date days = tf_data data match_date days"
  shows "timeframe_loop data' match_date f tfs acc = timeframe_loop data match_date f tfs acc"
proof (induction tfs arbitrary: acc)
  case Nil
  show ?case by simp
next
  case (Cons tf tfs)
  obtain days w where tf: "tf = (days, w)" by (cases tf)
  obtain res confs where acc: "acc = (res, confs)" by (cases acc)
  show ?case unfolding tf acc by (simp add: assms Let_def Cons.IH)
qed

lemma min_list_append_ge:
  assumes "xs \<noteq> []" "\<forall>y\<in>set ys. (d::int) \<le> y"
  shows "min_list (xs @ ys) = min_list xs \<or> d \<le> min_list (xs @ ys) \<and> d \<le> min_list xs"
proof -
  have "min_list (xs @ ys) = Min (set xs \<union> set ys)" using assms(1) by (simp add: min_list_Min)
  moreover have "min_list xs = Min (set xs)" using assms(1) by (simp add: min_list_Min)
  ultimately show ?thesis
  proof (cases "ys = []")
    case True then show ?thesis by simp
  next
    case False
    have m: "Min (set xs \<union> set ys) = min (Min (set xs)) (Min (set ys))"
      using assms(1) False by (simp add: Min_Un)
    have "d \<le> Min (set ys)" using assms(2) False by simp
    then show ?thesis using m \<open>min_list (xs @ ys) = _\<close> \<open>min_list xs = _\<close>
      by (auto simp: min_def)
  qed
qed

lemma timedelta_days_nonpos: "x \<le> 0 \<Longrightarrow> \<not> timedelta_days x > 730"
  using div_nonpos_pos_le0[of x 86400000000] by (simp add: timedelta_days_def)

lemma all_history_append:
  assumes "\<forall>r\<in>set extra. match_date \<le> Date r"
  shows "(case earliest_date (data @ extra) of None \<Rightarrow> False
          | Some e \<Rightarrow> timedelta_days (match_date - e) > 730)
       = (case earliest_date data of None \<Rightarrow> False
          | Some e \<Rightarrow> timedelta_days (match_date - e) > 730)"
proof (cases "data = []")
  case True
  show ?thesis
  proof (cases "extra = []")
    case True with \<open>data = []\<close> show ?thesis by simp
  next
    case False
    have "min_list (map Date extra) = Min (set (map Date extra))" using False by (simp add: min_list_Min)
    then have "match_date \<le> min_list (map Date extra)" using assms False by simp
    then show ?thesis using True False timedelta_days_nonpos[of "match_date - min_list (map Date extra)"]
      by (simp add: earliest_date_def)
  qed
next
  case False
  have "min_list (map Date data @ map Date extra) = min_list (map Date data)
     \<or> match_date \<le> min_list (map Date data @ map Date extra) \<and> match_date \<le> min_list (map Date data)"
    by (rule min_list_append_ge) (use False assms in auto)
  then show ?thesis using False
     timedelta_days_nonpos[of "match_date - min_list (map Date data @ map Date extra)"]
     timedelta_days_nonpos[of "match_date - min_list (map Date data)"]
    by (auto simp: earliest_date_def)
qed

lemma select_timeframes_alt:
  "select_timeframes data match_date custom use_all =
     (case custom of Some (tf # tfs) \<Rightarrow> tf # tfs
      | _ \<Rightarrow> if use_all \<and> (case earliest_date data of None \<Rightarrow> False
                 | Some e \<Rightarrow> timedelta_days (match_date - e) > 730)
             then AList.update 99999 0 default_timeframes else default_timeframes)"
  by (simp add: select_timeframes_def split: option.splits list.splits)

lemma select_timeframes_append:
  assumes "\<forall>r\<in>set extra. match_date \<le> Date r"
  shows "select_timeframes (data @ extra) match_date custom use_all
       = select_timeframes data match_date custom use_all"
  unfolding select_timeframes_alt all_history_append[OF assms] ..

lemma historical_view_append:
  assumes "\<forall>r\<in>set extra. Date m \<le> Date r"
  shows "historical_view (data @ extra) m = historical_view data m"
  using assms by (auto simp: historical_view_def filter_empty_conv)

subsection \<open>The loops in closed form\<close>

lemma timeframe_loop_all_empty:
  assumes "\<forall>(days, w)\<in>set tfs. tf_data data match_date days = []"
  shows "timeframe_loop data match_date f tfs acc = acc"
  using assms
proof (induction tfs arbitrary: acc)
  case Nil
  show ?case by simp
next
  case (Cons tf tfs)
  obtain days w where tf: "tf = (days, w)" by (cases tf)
  obtain res confs where acc: "acc = (res, confs)" by (cases acc)
  from Cons.prems have "tf_data data match_date days = []" and "\<forall>(days, w)\<in>set tfs. tf_data data match_date days = []"
    by (auto simp: tf)
  then show ?case unfolding tf acc by (simp add: Cons.IH)
qed

lemma update_fresh: "k \<notin> fst ` set al \<Longrightarrow> AList.update k v al = al @ [(k, v)]"
  by (induction al) auto

lemma loop_results_Cons:
  "loop_results data md f ((days, w) # tfs) =
     (if tf_data data md days \<noteq> []
      then (days, \<lparr>matches = int (length (tf_data data md days)),
                   success = hit_rate data md f days, weight = w\<rparr>) # loop_results data md f tfs
      else loop_results data md f tfs)"
  by (simp add: loop_results_def)

lemma loop_confidences_Cons:
  "loop_confidences data md f ((days, w) # tfs) =
     (if w > 0 \<and> tf_data data md days \<noteq> []
      then hit_rate data md f days # loop_confidences data md f tfs
      else loop_confidences data md f tfs)"
  by (simp add: loop_confidences_def windows_used_def)

lemma timeframe_loop_closed:
  assumes "distinct (map fst tfs)" "fst ` set res \<inter> fst ` set tfs = {}"
  shows "timeframe_loop data md f tfs (res, confs)
       = (res @ loop_results data md f tfs, confs @ loop_confidences data md f tfs)"
  using assms
proof (induction tfs arbitrary: res confs)
  case Nil
  show ?case by (simp add: loop_results_def loop_confidences_def windows_used_def)
next
  case (Cons tf tfs)
  obtain days w where tf: "tf = (days, w)" by (cases tf)
  have fresh: "days \<notin> fst ` set res" using Cons.prems(2) by (auto simp: tf)
  have d: "distinct (map fst tfs)" and notin: "days \<notin> fst ` set tfs"
    using Cons.prems(1) by (auto simp: tf)
  show ?case
  proof (cases "tf_data data md days = []")
    case True
    have "fst ` set res \<inter> fst ` set tfs = {}" using Cons.prems(2) by auto
    from Cons.IH[OF d this] True show ?thesis
      by (simp add: tf loop_results_Cons loop_confidences_Cons)
  next
    case False
    let ?r = "\<lparr>matches = int (length (tf_data data md days)),
                success = hit_rate data md f days, weight = w\<rparr>"
    have "fst ` set (res @ [(days, ?r)]) \<inter> fst ` set tfs = {}"
      using Cons.prems(2) notin by (auto simp: tf)
    from Cons.IH[OF d this] False fresh show ?thesis
      by (simp add: tf loop_results_Cons loop_confidences_Cons update_fresh hit_rate_def Let_def)
  qed
qed

lemma ensemble_loop_closed:
  "ensemble_loop rs (e, t) =
     (e + (\<Sum>(d, r) \<leftarrow> filter (\<lambda>(d, r). weight r > 0) rs. success r * weight r),
      t + (\<Sum>(d, r) \<leftarrow> filter (\<lambda>(d, r). weight r > 0) rs. weight r))"
  by (induction rs arbitrary: e t) (auto simp: algebra_simps)

lemma loop_results_weighted:
  "(\<Sum>(d, r) \<leftarrow> filter (\<lambda>(d, r). weight r > 0) (loop_results data md f tfs). success r * weight r)
     = (\<Sum>(days, w) \<leftarrow> windows_used data md tfs. w * hit_rate data md f days)"
  "(\<Sum>(d, r) \<leftarrow> filter (\<lambda>(d, r). weight r > 0) (loop_results data md f tfs). weight r)
     = (\<Sum>(days, w) \<leftarrow> windows_used data md tfs. w)"
  by (induction tfs) (auto simp: loop_results_Cons windows_used_def loop_results_def)

lemma sum_list_positive:
  fixes xs :: "rat list"
  assumes "xs \<noteq> []" "\<forall>x\<in>set xs. 0 < x"
  shows "0 < sum_list xs"
  using assms
proof (induction xs)
  case Nil
  then show ?case by simp
next
  case (Cons x xs)
  have "0 \<le> sum_list xs" using Cons.prems(2) by (intro sum_list_nonneg) (auto intro: less_imp_le)
  moreover have "0 < x" using Cons.prems(2) by simp
  ultimately show ?case by simp
qed

lemma windows_used_weight_pos:
  assumes "windows_used data md tfs \<noteq> []"
  shows "0 < (\<Sum>(days, w) \<leftarrow> windows_used data md tfs. w)"
proof (rule sum_list_positive)
  show "map (\<lambda>(days, w). w) (windows_used data md tfs) \<noteq> []" using assms by simp
  show "\<forall>x\<in>set (map (\<lambda>(days, w). w) (windows_used data md tfs)). 0 < x"
    by (auto simp: windows_used_def)
qed

lemma weighted_ensemble_loop_results:
  assumes "windows_used data md tfs \<noteq> []"
  shows "weighted_ensemble (loop_results data md f tfs) = spec_ensemble data md f tfs"
  using windows_used_weight_pos[OF assms]
  by (simp add: weighted_ensemble_def ensemble_loop_closed loop_results_weighted spec_ensemble_def)

lemma loop_results_nonempty:
  "windows_used data md tfs \<noteq> [] \<Longrightarrow> loop_results data md f tfs \<noteq> []"
  by (auto simp: windows_used_def loop_results_def filter_empty_conv)

lemma select_timeframes_distinct:
  assumes "\<forall>tfs. custom = Some tfs \<longrightarrow> distinct (map fst tfs)"
  shows "distinct (map fst (select_timeframes data md custom use_all))"
proof (cases custom)
  case None
  then show ?thesis
    by (simp add: select_timeframes_def default_timeframes_def split: option.splits)
next
  case (Some tfs)
  with assms have d: "distinct (map fst tfs)" by simp
  show ?thesis
  proof (cases tfs)
    case Nil
    with Some show ?thesis
      by (simp add: select_timeframes_def default_timeframes_def split: option.splits)
  next
    case (Cons tf rest)
    with Some d show ?thesis by (simp add: select_timeframes_def)
  qed
qed

subsection \<open>A corpus older than two years\<close>

lemma earliest_le:
  assumes "r \<in> set data"
  shows "\<exists>e. earliest_date data = Some e \<and> e \<le> Date r"
proof -
  have ne: "data \<noteq> []" using assms by auto
  then have "min_list (map Date data) = Min (set (map Date data))" by (simp add: min_list_Min)
  moreover have "Min (set (map Date data)) \<le> Date r" using assms by (intro Min_le) auto
  ultimately show ?thesis using ne by (simp add: earliest_date_def)
qed

lemma timedelta_days_ge:
  assumes "timedelta 731 \<le> x"
  shows "timedelta_days x > 730"
proof -
  have "731 * 86400000000 \<le> x" using assms by (simp add: timedelta_def)
  then have "731 \<le> x div 86400000000" by (simp add: pos_imp_zdiv_pos_iff zdiv_mono1 flip: div_mult_self_is_m)
  then show ?thesis by (simp add: timedelta_days_def)
qed

lemma select_timeframes_old_history:
  assumes "r \<in> set data" "Date r \<le> match_date - timedelta 731"
    and "custom = None \<or> custom = Some []"
  shows "select_timeframes data match_date custom True = default_timeframes @ [(99999, 0)]"
proof -
  obtain e where e: "earliest_date data = Some e" "e \<le> Date r" using earliest_le[OF assms(1)] by blast
  have "timedelta 731 \<le> match_date - e" using e(2) assms(2) by simp
  then have "timedelta_days (match_date - e) > 730" by (rule timedelta_days_ge)
  then show ?thesis using e(1) assms(3)
    by (auto simp: select_timeframes_def default_timeframes_def)
qed

subsection \<open>The penalty table\<close>

lemma penalties_range: "\<forall>(k, p)\<in>set PATTERN_RISK_PENALTIES. 1 / 100 \<le> p \<and> p \<le> 10 / 100"
  by (simp add: PATTERN_RISK_PENALTIES_def)

lemma lookup_over_2_5_goals: "map_of PATTERN_RISK_PENALTIES ''over_2_5_goals'' = Some (6 / 100)"
  by (simp add: PATTERN_RISK_PENALTIES_def)

lemma lookup_clean_sheet: "map_of PATTERN_RISK_PENALTIES ''home_win_clean_sheet'' = None"
  by (simp add: PATTERN_RISK_PENALTIES_def)

lemma lookup_total_over_2_5_goals:
  "map_of PATTERN_RISK_PENALTIES ''total_over_2_5_goals'' = Some (6 / 100)"
  by (simp add: PATTERN_RISK_PENALTIES_def)

lemma lookup_home_over_0_5_goals:
  "map_of PATTERN_RISK_PENALTIES ''home_over_0_5_goals'' = Some (2 / 100)"
  by (simp add: PATTERN_RISK_PENALTIES_def)

subsection \<open>Construction and registration\<close>

lemma Pattern_init_Inl:
  "(\<exists>e. Pattern_init nm cat fn thr mm descr = Inl e)
     \<longleftrightarrow> (fn = NotCallable \<or> \<not> (0 \<le> thr \<and> thr \<le> 1) \<or> mm < 1)"
  by (cases fn) (auto simp: Pattern_init_def)

lemma Pattern_init_Inr:
  "Pattern_init nm cat fn thr mm descr = Inr p \<Longrightarrow>
     name p = nm \<and> category p = cat \<and> fn = Callable (label_fn p) \<and> default_threshold p = thr
     \<and> min_matches p = mm \<and> description p = descr"
  by (cases fn) (auto simp: Pattern_init_def split: if_splits)

lemma register_pattern_Inl:
  "(\<exists>e. register_pattern reg nm cat fn thr mm descr = Inl e)
     \<longleftrightarrow> (fn = NotCallable \<or> \<not> (0 \<le> thr \<and> thr \<le> 1) \<or> mm < 1 \<or> nm \<in> fst ` set reg)"
proof (cases "Pattern_init nm cat fn thr mm descr")
  case (Inl e)
  then have "fn = NotCallable \<or> \<not> (0 \<le> thr \<and> thr \<le> 1) \<or> mm < 1"
    using Pattern_init_Inl[of nm cat fn thr mm descr] by blast
  then show ?thesis using Inl by (auto simp: register_pattern_def)
next
  case (Inr p)
  then have "\<not> (fn = NotCallable \<or> \<not> (0 \<le> thr \<and> thr \<le> 1) \<or> mm < 1)"
    using Pattern_init_Inl[of nm cat fn thr mm descr] by simp
  moreover have "name p = nm" using Pattern_init_Inr[OF Inr] by simp
  ultimately show ?thesis using Inr
    by (auto simp: register_pattern_def PatternRegistry_register_def)
qed

lemma register_pattern_Inr:
  assumes "register_pattern reg nm cat fn thr mm descr = Inr reg'"
  shows "\<exists>p. reg' = reg @ [(nm, p)] \<and> get_pattern reg' nm = Some p \<and> name p = nm
           \<and> category p = cat \<and> fn = Callable (label_fn p) \<and> default_threshold p = thr
           \<and> min_matches p = mm \<and> description p = descr"
proof -
  obtain p where p: "Pattern_init nm cat fn thr mm descr = Inr p"
    using assms by (auto simp: register_pattern_def split: sum.splits)
  note f = Pattern_init_Inr[OF p]
  have fresh: "nm \<notin> fst ` set reg" and reg': "reg' = AList.update nm p reg"
    using assms p f by (auto simp: register_pattern_def PatternRegistry_register_def split: if_splits)
  have "reg' = reg @ [(nm, p)]" using reg' fresh by (simp add: update_fresh)
  moreover have "map_of reg' nm = Some p" unfolding reg' by (simp add: update_conv')
  ultimately show ?thesis using f by (auto simp: get_pattern_def)
qed

subsection \<open>The selection loops\<close>

lemma evaluations_Cons:
  "evaluations ((pname, pat) # reg) thresholds data md ue =
     (case (map_of thresholds pname, pattern_confidence data md ue pat) of
        (Some thr, Some conf) \<Rightarrow>
          [\<lparr>pattern_name = pname, confidence = conf,
            risk_adjusted_confidence = calculate_risk_adjusted_confidence conf pname,
            threshold = thr\<rparr>]
      | _ \<Rightarrow> []) @ evaluations reg thresholds data md ue"
  by (simp add: evaluations_def)

lemma predict_loop_select_loop:
  "predict_loop thresholds data md ue reg best
     = select_loop (evaluations reg thresholds data md ue) best"
proof (induction reg arbitrary: best)
  case Nil
  show ?case by (simp add: evaluations_def)
next
  case (Cons item reg)
  obtain pname pat where item: "item = (pname, pat)" by (cases item)
  obtain bp bc br where best: "best = (bp, bc, br)" by (cases best)
  show ?case unfolding item best
    by (simp add: evaluations_Cons Cons.IH Let_def split: option.splits)
qed

lemma select_loop_result:
  "select_loop es (bp, bc, br) = (bp', bc', br') \<Longrightarrow>
     (\<forall>c\<in>set (candidates es). risk_adjusted_confidence c \<le> br') \<and> br \<le> br'
     \<and> ((bp', bc', br') = (bp, bc, br)
          \<or> (\<exists>e\<in>set (candidates es). bp' = Some (pattern_name e) \<and> bc' = confidence e
                \<and> br' = risk_adjusted_confidence e \<and> br < br'))"
proof (induction es arbitrary: bp bc br)
  case Nil
  then show ?case by (simp add: candidates_def)
next
  case (Cons e es)
  show ?case
  proof (cases "risk_adjusted_confidence e \<ge> threshold e \<and> risk_adjusted_confidence e > br")
    case True
    then have "select_loop es (Some (pattern_name e), confidence e, risk_adjusted_confidence e) = (bp', bc', br')"
      using Cons.prems by simp
    from Cons.IH[OF this] True show ?thesis
      by (auto simp: candidates_def)
  next
    case False
    then have "select_loop es (bp, bc, br) = (bp', bc', br')" using Cons.prems by auto
    from Cons.IH[OF this] False show ?thesis
      by (auto simp: candidates_def)
  qed
qed

lemma evaluations_threshold:
  "e \<in> set (evaluations reg thresholds data md ue) \<Longrightarrow>
     map_of thresholds (pattern_name e) = Some (threshold e)"
  by (induction reg) (auto simp: evaluations_Cons evaluations_def split: option.splits)

lemma max_by_result:
  "max_by key b xs \<in> set (b # xs) \<and> (\<forall>x\<in>set (b # xs). key x \<le> key (max_by key b xs))"
proof (induction xs arbitrary: b)
  case Nil
  show ?case by simp
next
  case (Cons x xs)
  show ?case using Cons.IH[of x] Cons.IH[of b] by (auto intro: order_trans less_imp_le)
qed

lemma romanian_thresholds_positive: "\<forall>(n, t)\<in>set romanian_thresholds. 0 < t \<and> n \<noteq> []"
  by (simp add: romanian_thresholds_def)

section \<open>The claims\<close>

text \<open>
  C1 (no lookahead). Let every row of \<open>extra\<close> be dated on or after the as-of date. Then
  appending \<open>extra\<close> to the corpus changes neither component of the result of
  \<^const>\<open>calculate_multi_timeframe_confidence\<close>, for every pattern, every pair of minimums,
  every custom table of timeframe weights (or none) and either setting of the all-history
  switch. Likewise the historical view that the backtest builds for a match is unchanged by
  rows dated on or after the match, and never contains the match itself.
\<close>

theorem no_lookahead:
  assumes "\<forall>r\<in>set extra. match_date \<le> Date r"
  shows "calculate_multi_timeframe_confidence (data @ extra) match_date f m7 m30 custom use_all
         = calculate_multi_timeframe_confidence data match_date f m7 m30 custom use_all
       \<and> historical_view (data @ extra) \<lparr>Date = match_date, stats = x\<rparr>
         = historical_view data \<lparr>Date = match_date, stats = x\<rparr>
       \<and> \<lparr>Date = match_date, stats = x\<rparr>
           \<notin> set (historical_view (data @ extra) \<lparr>Date = match_date, stats = x\<rparr>)"
proof -
  have "calculate_multi_timeframe_confidence (data @ extra) match_date f m7 m30 custom use_all
       = calculate_multi_timeframe_confidence data match_date f m7 m30 custom use_all"
    unfolding calculate_multi_timeframe_confidence_def
      select_timeframes_append[OF assms]
      timeframe_loop_cong[of "data @ extra" match_date data, OF tf_data_append[OF assms]] ..
  moreover have "historical_view (data @ extra) \<lparr>Date = match_date, stats = x\<rparr>
         = historical_view data \<lparr>Date = match_date, stats = x\<rparr>"
    by (rule historical_view_append) (use assms in simp)
  moreover have "\<lparr>Date = match_date, stats = x\<rparr>
      \<notin> set (historical_view (data @ extra) \<lparr>Date = match_date, stats = x\<rparr>)"
    by (simp add: historical_view_def)
  ultimately show ?thesis by blast
qed

text \<open>
  An instance: two rows before day 5, two rows appended on day 5 and day 9, as-of date day 5,
  the default table.
\<close>

theorem no_lookahead_witness:
  "timedelta 5 \<le> Date \<lparr>Date = timedelta 5, stats = True\<rparr>
   \<and> timedelta 5 \<le> Date \<lparr>Date = timedelta 9, stats = False\<rparr>
   \<and> calculate_multi_timeframe_confidence
        ([\<lparr>Date = timedelta 0, stats = True\<rparr>, \<lparr>Date = timedelta 3, stats = False\<rparr>]
          @ [\<lparr>Date = timedelta 5, stats = True\<rparr>, \<lparr>Date = timedelta 9, stats = False\<rparr>])
        (timedelta 5) stats 3 10 None True
     = calculate_multi_timeframe_confidence
        [\<lparr>Date = timedelta 0, stats = True\<rparr>, \<lparr>Date = timedelta 3, stats = False\<rparr>]
        (timedelta 5) stats 3 10 None True"
proof -
  have h: "\<forall>r\<in>set [\<lparr>Date = timedelta 5, stats = True\<rparr>, \<lparr>Date = timedelta 9, stats = False\<rparr>].
      timedelta 5 \<le> Date r"
    by (simp add: timedelta_def)
  have "calculate_multi_timeframe_confidence
        ([\<lparr>Date = timedelta 0, stats = True\<rparr>, \<lparr>Date = timedelta 3, stats = False\<rparr>]
          @ [\<lparr>Date = timedelta 5, stats = True\<rparr>, \<lparr>Date = timedelta 9, stats = False\<rparr>])
        (timedelta 5) stats 3 10 None True
     = calculate_multi_timeframe_confidence
        [\<lparr>Date = timedelta 0, stats = True\<rparr>, \<lparr>Date = timedelta 3, stats = False\<rparr>]
        (timedelta 5) stats 3 10 None True"
    using no_lookahead[OF h] by blast
  then show ?thesis by (simp add: timedelta_def)
qed

text \<open>
  C2 (best-bet selection), as amended. In the Romanian predictor, with thresholds that are
  positive and keyed by non-empty names (as the installed table is), a pattern is a
  candidate exactly when its risk-adjusted confidence reaches its threshold: with no
  candidate \<^const>\<open>predict_match\<close> returns \<open>None\<close>, and otherwise it returns one candidate whose
  risk-adjusted confidence is greatest among the candidates. In the Premier League
  predictor a pattern is a candidate when its calibrated confidence (not the risk-adjusted
  one) reaches its adjusted threshold: with no candidate the selection returns \<open>None\<close>, and
  otherwise the one candidate of greatest risk-adjusted confidence.
\<close>

theorem best_bet_selection:
  assumes "\<forall>(n, t)\<in>set thresholds. 0 < t \<and> n \<noteq> []"
  shows "(candidates (evaluations registry thresholds data md ue) = []
            \<longrightarrow> predict_match registry thresholds data md ue = None)
       \<and> (candidates (evaluations registry thresholds data md ue) \<noteq> []
            \<longrightarrow> (\<exists>b\<in>set (candidates (evaluations registry thresholds data md ue)).
                   predict_match registry thresholds data md ue = Some b
                   \<and> (\<forall>c\<in>set (candidates (evaluations registry thresholds data md ue)).
                        risk_adjusted_confidence c \<le> risk_adjusted_confidence b)))
       \<and> (filter (\<lambda>p. pl_confidence p \<ge> adjusted_threshold p) evaluated = []
            \<longrightarrow> predict_select evaluated = None)
       \<and> (filter (\<lambda>p. pl_confidence p \<ge> adjusted_threshold p) evaluated \<noteq> []
            \<longrightarrow> (\<exists>p\<in>set (filter (\<lambda>p. pl_confidence p \<ge> adjusted_threshold p) evaluated).
                   predict_select evaluated
                     = Some \<lparr>pattern_name = pattern p, confidence = pl_confidence p,
                             risk_adjusted_confidence = pl_risk_adjusted p,
                             threshold = adjusted_threshold p\<rparr>
                   \<and> (\<forall>c\<in>set (filter (\<lambda>p. pl_confidence p \<ge> adjusted_threshold p) evaluated).
                        pl_risk_adjusted c \<le> pl_risk_adjusted p)))"
proof -
  let ?evals = "evaluations registry thresholds data md ue"
  let ?cands = "candidates ?evals"
  obtain bp bc br where loop: "select_loop ?evals (None, 0, 0) = (bp, bc, br)"
    by (cases "select_loop ?evals (None, 0, 0)") auto
  note res = select_loop_result[OF loop]
  have pm: "predict_match registry thresholds data md ue =
     (case (bp, bc, br) of
        (Some best_pattern, best_confidence, best_risk_adjusted) \<Rightarrow>
          if best_pattern \<noteq> [] then
            (case map_of thresholds best_pattern of
               Some thr \<Rightarrow> Some \<lparr>pattern_name = best_pattern, confidence = best_confidence,
                                 risk_adjusted_confidence = best_risk_adjusted, threshold = thr\<rparr>
             | None \<Rightarrow> None)
          else None
      | (None, _, _) \<Rightarrow> None)"
    by (simp add: predict_match_def predict_loop_select_loop loop)
  have ro_none: "predict_match registry thresholds data md ue = None" if "?cands = []"
    using res that pm by auto
  have ro_some: "\<exists>b\<in>set ?cands. predict_match registry thresholds data md ue = Some b
                   \<and> (\<forall>c\<in>set ?cands. risk_adjusted_confidence c \<le> risk_adjusted_confidence b)"
    if ne: "?cands \<noteq> []"
  proof -
    obtain c where c: "c \<in> set ?cands" using ne by (cases ?cands) auto
    then have c_ev: "c \<in> set ?evals" and c_thr: "threshold c \<le> risk_adjusted_confidence c"
      by (auto simp: candidates_def)
    have "0 < threshold c"
      using map_of_SomeD[OF evaluations_threshold[OF c_ev]] assms by auto
    then have "0 < br" using res c c_thr by force
    then obtain e where e: "e \<in> set ?cands" "bp = Some (pattern_name e)" "bc = confidence e"
        "br = risk_adjusted_confidence e"
      using res by auto
    have e_ev: "e \<in> set ?evals" using e(1) by (simp add: candidates_def)
    note thr = evaluations_threshold[OF e_ev]
    have "pattern_name e \<noteq> []" using map_of_SomeD[OF thr] assms by auto
    then have "predict_match registry thresholds data md ue = Some e"
      using pm e thr by simp
    then show ?thesis using e res by auto
  qed
  let ?preds = "filter (\<lambda>p. pl_confidence p \<ge> adjusted_threshold p) evaluated"
  have set_sorted: "set (sort_by_confidence_desc ?preds) = set ?preds"
    by (simp add: sort_by_confidence_desc_def)
  have pl_none: "predict_select evaluated = None" if "?preds = []"
    using that by (simp add: predict_select_def sort_by_confidence_desc_def)
  have pl_some: "\<exists>p\<in>set ?preds. predict_select evaluated
                     = Some \<lparr>pattern_name = pattern p, confidence = pl_confidence p,
                             risk_adjusted_confidence = pl_risk_adjusted p,
                             threshold = adjusted_threshold p\<rparr>
                   \<and> (\<forall>c\<in>set ?preds. pl_risk_adjusted c \<le> pl_risk_adjusted p)"
    if ne: "?preds \<noteq> []"
  proof -
    have "sort_by_confidence_desc ?preds \<noteq> []" using ne set_sorted by (metis set_empty)
    then obtain p ps where s: "sort_by_confidence_desc ?preds = p # ps"
      by (cases "sort_by_confidence_desc ?preds") auto
    let ?b = "max_by pl_risk_adjusted p ps"
    have "?b \<in> set (p # ps)" and "\<forall>x\<in>set (p # ps). pl_risk_adjusted x \<le> pl_risk_adjusted ?b"
      using max_by_result[of pl_risk_adjusted p ps] by blast+
    then have "?b \<in> set ?preds" and "\<forall>x\<in>set ?preds. pl_risk_adjusted x \<le> pl_risk_adjusted ?b"
      using s set_sorted by auto
    moreover have "predict_select evaluated
        = Some \<lparr>pattern_name = pattern ?b, confidence = pl_confidence ?b,
                risk_adjusted_confidence = pl_risk_adjusted ?b, threshold = adjusted_threshold ?b\<rparr>"
      using s by (simp add: predict_select_def Let_def)
    ultimately show ?thesis by blast
  qed
  show ?thesis using ro_none ro_some pl_none pl_some by blast
qed

text \<open>
  An instance: one registered pattern that holds on the only row of the history, evaluated
  with the installed Romanian thresholds, and one evaluated Premier League pattern.
\<close>

theorem best_bet_selection_witness:
  "list_all (\<lambda>(n, t). 0 < t \<and> n \<noteq> []) romanian_thresholds
   \<and> candidates (evaluations
        [(''home_over_0_5_goals'',
          \<lparr>name = ''home_over_0_5_goals'', category = GOALS, label_fn = stats,
            default_threshold = 70 / 100, min_matches = 15,
            description = ''Home team scores at least 1 goal''\<rparr>)]
        romanian_thresholds [\<lparr>Date = timedelta 1, stats = True\<rparr>] (timedelta 3) True)
      = [\<lparr>pattern_name = ''home_over_0_5_goals'', confidence = 96 / 100,
           risk_adjusted_confidence = 94 / 100, threshold = 55 / 100\<rparr>]
   \<and> predict_match
        [(''home_over_0_5_goals'',
          \<lparr>name = ''home_over_0_5_goals'', category = GOALS, label_fn = stats,
            default_threshold = 70 / 100, min_matches = 15,
            description = ''Home team scores at least 1 goal''\<rparr>)]
        romanian_thresholds [\<lparr>Date = timedelta 1, stats = True\<rparr>] (timedelta 3) True
      = Some \<lparr>pattern_name = ''home_over_0_5_goals'', confidence = 96 / 100,
              risk_adjusted_confidence = 94 / 100, threshold = 55 / 100\<rparr>
   \<and> predict_select
        [\<lparr>pattern = ''home_over_0_5_goals'', pl_confidence = 70 / 100,
          base_threshold = 60 / 100, adjusted_threshold = 60 / 100\<rparr>]
      = Some \<lparr>pattern_name = ''home_over_0_5_goals'', confidence = 70 / 100,
              risk_adjusted_confidence = 68 / 100, threshold = 60 / 100\<rparr>"
proof -
  let ?reg = "[(''home_over_0_5_goals'',
          \<lparr>name = ''home_over_0_5_goals'', category = GOALS, label_fn = stats,
            default_threshold = 70 / 100, min_matches = 15,
            description = ''Home team scores at least 1 goal''\<rparr>)]"
  let ?data = "[\<lparr>Date = timedelta 1, stats = True\<rparr>]"
  let ?pl = "[\<lparr>pattern = ''home_over_0_5_goals'', pl_confidence = 70 / 100,
          base_threshold = 60 / 100, adjusted_threshold = 60 / 100\<rparr>]"
  have thr: "map_of romanian_thresholds ''home_over_0_5_goals'' = Some (55 / 100)"
    by (simp add: romanian_thresholds_def)
  have conf: "pattern_confidence ?data (timedelta 3) True (snd (hd ?reg)) = Some (96 / 100)"
    by (simp add: pattern_confidence_def calculate_multi_timeframe_confidence_def
        select_timeframes_def ROMANIAN_TIMEFRAME_WEIGHTS_def timedelta_def tf_data_def Let_def
        weighted_ensemble_def get_success_def get_matches_def success_rate_def
        trend_analysis_def std_dev_squared_def variance_def mean_def consistency_check_def
        sample_size_validation_def clamp01_def)
  have risk: "calculate_risk_adjusted_confidence (24 / 25) ''home_over_0_5_goals'' = 47 / 50"
    by (simp add: calculate_risk_adjusted_confidence_def get_pattern_risk_penalty_def
        lookup_home_over_0_5_goals)
  have risk_pl: "calculate_risk_adjusted_confidence (7 / 10) ''home_over_0_5_goals'' = 17 / 25"
    by (simp add: calculate_risk_adjusted_confidence_def get_pattern_risk_penalty_def
        lookup_home_over_0_5_goals)
  have cands: "candidates (evaluations ?reg romanian_thresholds ?data (timedelta 3) True)
      = [\<lparr>pattern_name = ''home_over_0_5_goals'', confidence = 96 / 100,
           risk_adjusted_confidence = 94 / 100, threshold = 55 / 100\<rparr>]"
    using conf by (simp add: evaluations_def candidates_def thr risk)
  have pl: "filter (\<lambda>p. pl_confidence p \<ge> adjusted_threshold p) ?pl = ?pl"
    by simp
  note t = best_bet_selection[OF romanian_thresholds_positive,
      of ?reg ?data "timedelta 3" True ?pl]
  have a: "predict_match ?reg romanian_thresholds ?data (timedelta 3) True
      = Some \<lparr>pattern_name = ''home_over_0_5_goals'', confidence = 96 / 100,
              risk_adjusted_confidence = 94 / 100, threshold = 55 / 100\<rparr>"
    using t unfolding cands by simp
  have b: "predict_select ?pl
      = Some \<lparr>pattern_name = ''home_over_0_5_goals'', confidence = 70 / 100,
              risk_adjusted_confidence = 68 / 100, threshold = 60 / 100\<rparr>"
    using t unfolding pl by (simp add: pl_risk_adjusted_def risk_pl)
  have "list_all (\<lambda>(n, t). 0 < t \<and> n \<noteq> []) romanian_thresholds"
    using romanian_thresholds_positive by (simp add: list_all_iff)
  then show ?thesis using cands a b by blast
qed

text \<open>
  The claim as first stated fails on the Premier League selection: a pattern of calibrated
  confidence 0.62 and threshold 0.60 is returned as the best bet although its risk-adjusted
  confidence, 0.56, is below the threshold.
\<close>

theorem best_bet_selection_counterexample:
  "predict_select
     [\<lparr>pattern = ''total_over_2_5_goals'', pl_confidence = 62 / 100,
       base_threshold = 60 / 100, adjusted_threshold = 60 / 100\<rparr>]
     = Some \<lparr>pattern_name = ''total_over_2_5_goals'', confidence = 62 / 100,
             risk_adjusted_confidence = 56 / 100, threshold = 60 / 100\<rparr>
   \<and> calculate_risk_adjusted_confidence (62 / 100) ''total_over_2_5_goals'' < 60 / 100"
proof -
  have "map_of PATTERN_RISK_PENALTIES ''total_over_2_5_goals'' = Some (6 / 100)"
    by (simp add: PATTERN_RISK_PENALTIES_def)
  then have "calculate_risk_adjusted_confidence (62 / 100) ''total_over_2_5_goals'' = 56 / 100"
    by (simp add: calculate_risk_adjusted_confidence_def get_pattern_risk_penalty_def)
  then show ?thesis
    by (simp add: predict_select_def sort_by_confidence_desc_def pl_risk_adjusted_def)
qed

text \<open>
  C3 (ensemble normalization). Let the keys of a custom table be distinct, as the keys of a
  dictionary are, and let at least one window of the table in use have a positive weight and
  at least one match. Then \<^const>\<open>calculate_multi_timeframe_confidence\<close> returns a breakdown
  whose ensemble confidence is the sum of weight times hit rate over exactly the windows with
  positive weight and at least one match, divided by the sum of the weights of those windows.
\<close>

theorem ensemble_normalization:
  assumes "\<forall>tfs. custom = Some tfs \<longrightarrow> distinct (map fst tfs)"
    and "windows_used data md (select_timeframes data md custom use_all) \<noteq> []"
  shows "\<exists>info. snd (calculate_multi_timeframe_confidence data md f m7 m30 custom use_all) = Info info
           \<and> ensemble_confidence info
             = spec_ensemble data md f (select_timeframes data md custom use_all)"
proof -
  let ?tfs = "select_timeframes data md custom use_all"
  have "timeframe_loop data md f ?tfs ([], [])
      = ([] @ loop_results data md f ?tfs, [] @ loop_confidences data md f ?tfs)"
    by (rule timeframe_loop_closed) (use select_timeframes_distinct[OF assms(1)] in auto)
  then show ?thesis
    using loop_results_nonempty[OF assms(2)] weighted_ensemble_loop_results[OF assms(2)]
    by (simp add: calculate_multi_timeframe_confidence_def Let_def split: prod.split)
qed

text \<open>
  An instance: three rows in the last ten days and the table 7 days 0.3, 30 days 0.1,
  365 days 0; the 7-day window holds two rows (hit rate 1/2), the 30-day window three
  (hit rate 2/3), so the ensemble is (0.3 * 1/2 + 0.1 * 2/3) / 0.4 = 13/24.
\<close>

theorem ensemble_normalization_witness:
  "distinct (map fst [(7 :: int, 3 / 10 :: rat), (30, 1 / 10), (365, 0)])
   \<and> windows_used
        [\<lparr>Date = timedelta 1, stats = True\<rparr>, \<lparr>Date = timedelta 3, stats = False\<rparr>,
         \<lparr>Date = timedelta 4, stats = True\<rparr>] (timedelta 10)
        (select_timeframes
           [\<lparr>Date = timedelta 1, stats = True\<rparr>, \<lparr>Date = timedelta 3, stats = False\<rparr>,
            \<lparr>Date = timedelta 4, stats = True\<rparr>] (timedelta 10)
           (Some [(7, 3 / 10), (30, 1 / 10), (365, 0)]) True) \<noteq> []
   \<and> (\<exists>info. snd (calculate_multi_timeframe_confidence
          [\<lparr>Date = timedelta 1, stats = True\<rparr>, \<lparr>Date = timedelta 3, stats = False\<rparr>,
           \<lparr>Date = timedelta 4, stats = True\<rparr>] (timedelta 10) stats 3 10
          (Some [(7, 3 / 10), (30, 1 / 10), (365, 0)]) True) = Info info
        \<and> ensemble_confidence info = 13 / 24)"
proof -
  let ?data = "[\<lparr>Date = timedelta 1, stats = True\<rparr>, \<lparr>Date = timedelta 3, stats = False\<rparr>,
         \<lparr>Date = timedelta 4, stats = True\<rparr>]"
  let ?custom = "Some [(7 :: int, 3 / 10 :: rat), (30, 1 / 10), (365, 0)]"
  have sel: "select_timeframes ?data (timedelta 10) ?custom True
      = [(7, 3 / 10), (30, 1 / 10), (365, 0)]"
    by (simp add: select_timeframes_def)
  have h1: "\<forall>tfs. ?custom = Some tfs \<longrightarrow> distinct (map fst tfs)" by simp
  have used: "windows_used ?data (timedelta 10) [(7, 3 / 10), (30, 1 / 10), (365, 0)]
      = [(7, 3 / 10), (30, 1 / 10)]"
    by (simp add: windows_used_def tf_data_def timedelta_def)
  have h2: "windows_used ?data (timedelta 10) (select_timeframes ?data (timedelta 10) ?custom True) \<noteq> []"
    by (simp add: sel used)
  have v: "spec_ensemble ?data (timedelta 10) stats [(7, 3 / 10), (30, 1 / 10), (365, 0)] = 13 / 24"
    unfolding spec_ensemble_def used
    by (simp add: hit_rate_def success_rate_def tf_data_def timedelta_def)
  from ensemble_normalization[OF h1 h2, of stats 3 10] h2 show ?thesis
    by (simp add: sel v)
qed

text \<open>
  C4 (range invariant). On every corpus, as-of date, pattern, pair of minimums and table of
  timeframe weights, the first component returned by
  \<^const>\<open>calculate_multi_timeframe_confidence\<close> lies in the closed interval from 0 to 1,
  whichever way the trend, consistency and sample adjustments add up. The model is total,
  so the statement covers every input.
\<close>

theorem final_confidence_in_unit_interval:
  "0 \<le> fst (calculate_multi_timeframe_confidence data match_date pattern_fn m7 m30 custom use_all)
   \<and> fst (calculate_multi_timeframe_confidence data match_date pattern_fn m7 m30 custom use_all) \<le> 1"
  by (simp add: calculate_multi_timeframe_confidence_def Let_def clamp01_range split: prod.split)

text \<open>An instance: the two rows of day 0 and day 3 seen from day 5.\<close>

theorem final_confidence_in_unit_interval_witness:
  "0 \<le> fst (calculate_multi_timeframe_confidence
        [\<lparr>Date = timedelta 0, stats = True\<rparr>, \<lparr>Date = timedelta 3, stats = False\<rparr>]
        (timedelta 5) stats 3 10 None True)
   \<and> fst (calculate_multi_timeframe_confidence
        [\<lparr>Date = timedelta 0, stats = True\<rparr>, \<lparr>Date = timedelta 3, stats = False\<rparr>]
        (timedelta 5) stats 3 10 None True) \<le> 1"
  by (rule final_confidence_in_unit_interval)

text \<open>
  C5 (sample-size validation), as amended. The sample adjustment is 0 (sufficient) when both
  counts reach their minimums; otherwise it is \<open>-0.02\<close> (adequate) when the 7-day count is
  at least the larger of 2 and the minimum less one and the 30-day count is at least the
  larger of 8 and the minimum less two; otherwise it is \<open>-0.05\<close> (insufficient). When the
  minimums are at least 3 and 10 this is the rule "within one of the 7-day minimum and within
  two of the 30-day minimum".
\<close>

theorem sample_size_validation_rule:
  "sample_size_validation min_7d min_30d count_7d count_30d =
     (if min_7d \<le> count_7d \<and> min_30d \<le> count_30d then (sufficient, 0)
      else if max 2 (min_7d - 1) \<le> count_7d \<and> max 8 (min_30d - 2) \<le> count_30d
           then (adequate, - (2 / 100))
      else (insufficient, - (5 / 100)))
   \<and> (3 \<le> min_7d \<and> 10 \<le> min_30d \<longrightarrow>
        snd (sample_size_validation min_7d min_30d count_7d count_30d)
          = spec_sample_adjustment min_7d min_30d count_7d count_30d)"
  by (auto simp: sample_size_validation_def spec_sample_adjustment_def)

text \<open>An instance: the default minimums 3 and 10 with counts 2 and 8.\<close>

theorem sample_size_validation_rule_witness:
  "(3::int) \<le> 3 \<and> (10::int) \<le> 10
   \<and> sample_size_validation 3 10 2 8 = (adequate, - (2 / 100))
   \<and> snd (sample_size_validation 3 10 2 8) = spec_sample_adjustment 3 10 2 8"
  using sample_size_validation_rule[of 3 10 2 8] by auto

text \<open>
  The claim as first stated fails at the minimums 2 and 8 that the predictors pass: with
  counts 1 and 8 both counts are within one and two of their minimums, yet the code answers
  insufficient.
\<close>

theorem sample_size_validation_counterexample:
  "(2::int) - 1 \<le> 1 \<and> (8::int) - 2 \<le> 8
   \<and> sample_size_validation 2 8 1 8 = (insufficient, - (5 / 100))
   \<and> spec_sample_adjustment 2 8 1 8 = - (2 / 100)
   \<and> snd (sample_size_validation 2 8 1 8) \<noteq> spec_sample_adjustment 2 8 1 8"
  by (simp add: sample_size_validation_def spec_sample_adjustment_def)

text \<open>
  C6 (risk adjustment), as amended. \<^const>\<open>calculate_risk_adjusted_confidence\<close> returns the
  confidence less the penalty of the pattern name, clamped to the interval from 0 to 1. The
  penalty is the entry of the table for the exact pattern name, a value between 0.01 and 0.10;
  every name that is not a key of the table receives the default penalty 0.05. No lookup by
  substring or by category takes place.
\<close>

theorem risk_adjustment_exact_lookup:
  "calculate_risk_adjusted_confidence c n = max 0 (min 1 (c - get_pattern_risk_penalty n))
   \<and> 0 \<le> calculate_risk_adjusted_confidence c n \<and> calculate_risk_adjusted_confidence c n \<le> 1
   \<and> (\<forall>p. map_of PATTERN_RISK_PENALTIES n = Some p \<longrightarrow>
          get_pattern_risk_penalty n = p \<and> 1 / 100 \<le> p \<and> p \<le> 10 / 100)
   \<and> (n \<notin> fst ` set PATTERN_RISK_PENALTIES \<longrightarrow> get_pattern_risk_penalty n = 5 / 100)"
proof -
  have "1 / 100 \<le> p \<and> p \<le> 10 / 100" if "map_of PATTERN_RISK_PENALTIES n = Some p" for p
    using map_of_SomeD[OF that] penalties_range by blast
  moreover have "get_pattern_risk_penalty n = 5 / 100" if "n \<notin> fst ` set PATTERN_RISK_PENALTIES"
    using that by (simp add: get_pattern_risk_penalty_def DEFAULT_RISK_PENALTY_def map_of_eq_None_iff[THEN iffD2])
  ultimately show ?thesis
    by (auto simp: calculate_risk_adjusted_confidence_def Let_def get_pattern_risk_penalty_def)
qed

text \<open>An instance: one name of the table and one name outside it.\<close>

theorem risk_adjustment_exact_lookup_witness:
  "map_of PATTERN_RISK_PENALTIES ''over_2_5_goals'' = Some (6 / 100)
   \<and> ''home_win_clean_sheet'' \<notin> fst ` set PATTERN_RISK_PENALTIES
   \<and> get_pattern_risk_penalty ''over_2_5_goals'' = 6 / 100
   \<and> get_pattern_risk_penalty ''home_win_clean_sheet'' = 5 / 100"
proof -
  have a: "map_of PATTERN_RISK_PENALTIES ''over_2_5_goals'' = Some (6 / 100)"
    by (rule lookup_over_2_5_goals)
  have b: "''home_win_clean_sheet'' \<notin> fst ` set PATTERN_RISK_PENALTIES"
    using lookup_clean_sheet by (simp add: map_of_eq_None_iff)
  from risk_adjustment_exact_lookup[of c "''over_2_5_goals''"]
       risk_adjustment_exact_lookup[of c "''home_win_clean_sheet''"] a b
  show ?thesis by blast
qed

text \<open>
  The claim as first stated fails on a pattern of the league catalogues,
  \<^verbatim>\<open>home_win_clean_sheet\<close>: its name contains the key \<^verbatim>\<open>home_win\<close> of the table (penalty
  0.08), but it is not itself a key, and it receives the default penalty 0.05.
\<close>

theorem risk_adjustment_counterexample:
  "sublist ''home_win'' ''home_win_clean_sheet''
   \<and> map_of PATTERN_RISK_PENALTIES ''home_win'' = Some (8 / 100)
   \<and> map_of PATTERN_RISK_PENALTIES ''home_win_clean_sheet'' = None
   \<and> get_pattern_risk_penalty ''home_win_clean_sheet'' = 5 / 100
   \<and> calculate_risk_adjusted_confidence (80 / 100) ''home_win_clean_sheet'' = 75 / 100"
proof -
  have "''home_win_clean_sheet'' = ''home_win'' @ ''_clean_sheet''" by simp
  then have "sublist ''home_win'' ''home_win_clean_sheet''"
    using sublist_append_rightI[of "''home_win''" "''_clean_sheet''"] by simp
  moreover have "map_of PATTERN_RISK_PENALTIES ''home_win'' = Some (8 / 100)"
    by (simp add: PATTERN_RISK_PENALTIES_def)
  ultimately show ?thesis
    by (simp add: lookup_clean_sheet calculate_risk_adjusted_confidence_def
        get_pattern_risk_penalty_def DEFAULT_RISK_PENALTY_def)
qed

text \<open>
  C7 (catalog registration), as amended. \<^const>\<open>register_pattern\<close> fails with a
  \<^verbatim>\<open>ValueError\<close> exactly when the label function is not callable, the threshold is outside
  the interval from 0 to 1, \<^verbatim>\<open>min_matches\<close> is below 1, or the name is already registered. A
  registration that succeeds puts the pattern under its name at the end of the registry, and
  registering that name again fails whatever the other arguments are.
\<close>

theorem register_pattern_errors:
  "((\<exists>e. register_pattern reg nm cat fn thr mm descr = Inl e)
      \<longleftrightarrow> (fn = NotCallable \<or> \<not> (0 \<le> thr \<and> thr \<le> 1) \<or> mm < 1 \<or> nm \<in> fst ` set reg))
   \<and> (\<forall>reg'. register_pattern reg nm cat fn thr mm descr = Inr reg' \<longrightarrow>
         (\<exists>p. get_pattern reg' nm = Some p \<and> name p = nm \<and> category p = cat
              \<and> fn = Callable (label_fn p) \<and> default_threshold p = thr \<and> min_matches p = mm)
         \<and> list_patterns reg' = list_patterns reg @ [nm]
         \<and> (\<exists>e. register_pattern reg' nm cat2 fn2 thr2 mm2 descr2 = Inl e))"
proof -
  have "(\<exists>p. get_pattern reg' nm = Some p \<and> name p = nm \<and> category p = cat
              \<and> fn = Callable (label_fn p) \<and> default_threshold p = thr \<and> min_matches p = mm)
         \<and> list_patterns reg' = list_patterns reg @ [nm]
         \<and> (\<exists>e. register_pattern reg' nm cat2 fn2 thr2 mm2 descr2 = Inl e)"
    if ok: "register_pattern reg nm cat fn thr mm descr = Inr reg'" for reg'
  proof -
    obtain p where p: "reg' = reg @ [(nm, p)]" "get_pattern reg' nm = Some p" "name p = nm"
      "category p = cat" "fn = Callable (label_fn p)" "default_threshold p = thr" "min_matches p = mm"
      using register_pattern_Inr[OF ok] by blast
    have "nm \<in> fst ` set reg'" using p(1) by simp
    then have "\<exists>e. register_pattern reg' nm cat2 fn2 thr2 mm2 descr2 = Inl e"
      using register_pattern_Inl[of reg' nm cat2 fn2 thr2 mm2 descr2] by blast
    moreover have "list_patterns reg' = list_patterns reg @ [nm]"
      using p(1) by (simp add: list_patterns_def)
    ultimately show ?thesis using p by blast
  qed
  then show ?thesis using register_pattern_Inl[of reg nm cat fn thr mm descr] by blast
qed

text \<open>An instance: a first registration into the empty registry, then a second of the same name.\<close>

theorem register_pattern_errors_witness:
  "register_pattern ([] :: bool PatternRegistry) ''total_over_2_5_goals'' GOALS (Callable stats) (65 / 100) 20 ''Total goals over 2.5''
     = Inr [(''total_over_2_5_goals'',
             \<lparr>name = ''total_over_2_5_goals'', category = GOALS, label_fn = stats,
               default_threshold = 65 / 100, min_matches = 20, description = ''Total goals over 2.5''\<rparr>)]
   \<and> (\<exists>e. register_pattern
             [(''total_over_2_5_goals'',
               \<lparr>name = ''total_over_2_5_goals'', category = GOALS, label_fn = stats,
                 default_threshold = 65 / 100, min_matches = 20, description = ''Total goals over 2.5''\<rparr>)]
             ''total_over_2_5_goals'' CORNERS (Callable stats) (60 / 100) 15 ''again'' = Inl e)"
proof -
  have ok: "register_pattern ([] :: bool PatternRegistry) ''total_over_2_5_goals'' GOALS (Callable stats) (65 / 100) 20 ''Total goals over 2.5''
     = Inr [(''total_over_2_5_goals'',
             \<lparr>name = ''total_over_2_5_goals'', category = GOALS, label_fn = stats,
               default_threshold = 65 / 100, min_matches = 20, description = ''Total goals over 2.5''\<rparr>)]"
    by (simp add: register_pattern_def Pattern_init_def PatternRegistry_register_def)
  from register_pattern_errors[of "[] :: bool PatternRegistry" "''total_over_2_5_goals''" GOALS
        "Callable stats" "65 / 100" 20 "''Total goals over 2.5''" CORNERS "Callable stats" "60 / 100" 15 "''again''"] ok
  show ?thesis by simp
qed

text \<open>
  The claim as first stated fails when the label function is not callable: the name is new,
  the threshold is within range and \<^verbatim>\<open>min_matches\<close> is 20, and the registration fails.
\<close>

theorem register_pattern_counterexample:
  "''total_over_2_5_goals'' \<notin> fst ` set ([] :: (string \<times> bool Pattern) list)
   \<and> (0::rat) \<le> 65 / 100 \<and> (65 / 100 :: rat) \<le> 1 \<and> \<not> (20::int) < 1
   \<and> register_pattern ([] :: bool PatternRegistry) ''total_over_2_5_goals'' GOALS NotCallable (65 / 100) 20 ''Total goals over 2.5''
       = Inl (label_fn_must_be_callable ''total_over_2_5_goals'')"
  by (simp add: register_pattern_def Pattern_init_def)

text \<open>
  C8 (no-data default). When no window of the timeframe table in use contains a match,
  \<^const>\<open>calculate_multi_timeframe_confidence\<close> returns the confidence 0.5 together with the
  dictionary that holds only the error message.
\<close>

theorem no_data_default:
  assumes "\<forall>(days, w)\<in>set (select_timeframes data match_date custom use_all).
             tf_data data match_date days = []"
  shows "calculate_multi_timeframe_confidence data match_date f m7 m30 custom use_all
       = (1 / 2, Error ''No historical data available'')"
  unfolding calculate_multi_timeframe_confidence_def
  by (simp add: timeframe_loop_all_empty[OF assms])

text \<open>An instance: a corpus whose only row is dated after the as-of date.\<close>

theorem no_data_default_witness:
  "list_all (\<lambda>(days, w). tf_data [\<lparr>Date = timedelta 9, stats = True\<rparr>] (timedelta 5) days = [])
     (select_timeframes [\<lparr>Date = timedelta 9, stats = True\<rparr>] (timedelta 5) None True)
   \<and> calculate_multi_timeframe_confidence [\<lparr>Date = timedelta 9, stats = True\<rparr>]
        (timedelta 5) stats 3 10 None True
       = (1 / 2, Error ''No historical data available'')"
proof -
  have sel: "select_timeframes [\<lparr>Date = timedelta 9, stats = True\<rparr>] (timedelta 5) None True
      = default_timeframes"
    by (simp add: select_timeframes_def earliest_date_def timedelta_def timedelta_days_def)
  have h: "\<forall>(days, w)\<in>set (select_timeframes [\<lparr>Date = timedelta 9, stats = True\<rparr>] (timedelta 5) None True).
       tf_data [\<lparr>Date = timedelta 9, stats = True\<rparr>] (timedelta 5) days = []"
    by (simp add: sel default_timeframes_def tf_data_def timedelta_def)
  from no_data_default[OF h] h show ?thesis by (simp add: list_all_iff)
qed

text \<open>
  C10 (history older than every weighted window), as amended. With the default table and
  the all-history switch on, let some row be dated at least 731 days before the as-of date,
  let every window of positive weight be empty, and let the two minimums not both be zero or
  negative. Then the function does not answer "no data": the only entry of the timeframe
  results is the all-history window of weight 0, the ensemble confidence is 0.5, the trend is
  stable, the consistency is high, the sample is insufficient, and the final confidence
  is 0.46.
\<close>

theorem old_history_only:
  assumes old: "\<exists>r\<in>set data. Date r \<le> match_date - timedelta 731"
    and empty: "\<forall>(days, w)\<in>set default_timeframes. 0 < w \<longrightarrow> tf_data data match_date days = []"
    and mins: "0 < min_matches_7d \<or> 0 < min_matches_30d"
    and custom: "custom = None \<or> custom = Some []"
  shows "calculate_multi_timeframe_confidence data match_date f min_matches_7d min_matches_30d custom True
       = (46 / 100,
          Info \<lparr>ensemble_confidence = 1 / 2, final_confidence = 46 / 100,
                timeframe_results =
                  [(99999, \<lparr>matches = int (length (filter (\<lambda>r. Date r < match_date) data)),
                             success = success_rate f (filter (\<lambda>r. Date r < match_date) data),
                             weight = 0\<rparr>)],
                trend = stable, trend_adjustment = 0, trend_7_vs_30 = 0, trend_30_vs_season = 0,
                trend_season_vs_all = 1 / 2 - success_rate f (filter (\<lambda>r. Date r < match_date) data),
                consistency = high, consistency_adjustment = 1 / 100, std_dev_sq = 0,
                sample_quality = insufficient, sample_adjustment = - (5 / 100),
                matches_7d = 0, matches_30d = 0,
                all_history_matches = int (length (filter (\<lambda>r. Date r < match_date) data)),
                all_history_success = success_rate f (filter (\<lambda>r. Date r < match_date) data)\<rparr>)"
proof -
  let ?hist = "filter (\<lambda>r. Date r < match_date) data"
  let ?tfs = "default_timeframes @ [(99999, 0)]"
  obtain r where r: "r \<in> set data" "Date r \<le> match_date - timedelta 731" using old by blast
  have sel: "select_timeframes data match_date custom True = ?tfs"
    by (rule select_timeframes_old_history[OF r custom])
  have "Date r < match_date" using r(2) by (simp add: timedelta_def)
  then have hist_ne: "?hist \<noteq> []" using r(1) by (auto simp: filter_empty_conv)
  have all: "tf_data data match_date 99999 = ?hist" by (simp add: tf_data_def)
  have e: "tf_data data match_date 7 = []" "tf_data data match_date 14 = []"
    "tf_data data match_date 30 = []" "tf_data data match_date 90 = []"
    "tf_data data match_date 365 = []" "tf_data data match_date 730 = []"
    using empty by (simp_all add: default_timeframes_def)
  have res: "loop_results data match_date f ?tfs
     = [(99999, \<lparr>matches = int (length ?hist), success = success_rate f ?hist, weight = 0\<rparr>)]"
    using hist_ne by (simp add: loop_results_def default_timeframes_def e all hit_rate_def)
  have confs: "loop_confidences data match_date f ?tfs = []"
    by (simp add: loop_confidences_def windows_used_def default_timeframes_def e)
  have "timeframe_loop data match_date f ?tfs ([], [])
      = ([] @ loop_results data match_date f ?tfs, [] @ loop_confidences data match_date f ?tfs)"
    by (rule timeframe_loop_closed) (simp_all add: default_timeframes_def)
  then have loop: "timeframe_loop data match_date f ?tfs ([], [])
      = ([(99999, \<lparr>matches = int (length ?hist), success = success_rate f ?hist, weight = 0\<rparr>)], [])"
    by (simp add: res confs)
  have samp: "sample_size_validation min_matches_7d min_matches_30d 0 0 = (insufficient, - (5 / 100))"
    using mins by (auto simp: sample_size_validation_def)
  show ?thesis
    unfolding calculate_multi_timeframe_confidence_def sel
    by (simp add: loop Let_def weighted_ensemble_def get_success_def get_matches_def
        trend_analysis_def std_dev_squared_def consistency_check_def samp clamp01_def)
qed

text \<open>An instance: one row on day 0, as-of date day 731, the default minimums.\<close>

theorem old_history_only_witness:
  "(\<exists>r\<in>set [\<lparr>Date = 0, stats = True\<rparr>]. Date r \<le> timedelta 731 - timedelta 731)
   \<and> list_all (\<lambda>(days, w). 0 < w \<and> tf_data [\<lparr>Date = 0, stats = True\<rparr>] (timedelta 731) days = [])
        default_timeframes
   \<and> ((0::int) < 3 \<or> (0::int) < 10)
   \<and> fst (calculate_multi_timeframe_confidence [\<lparr>Date = 0, stats = True\<rparr>] (timedelta 731) stats 3 10 None True)
       = 46 / 100"
proof -
  have a: "\<exists>r\<in>set [\<lparr>Date = 0, stats = True\<rparr>]. Date r \<le> timedelta 731 - timedelta 731" by simp
  have l: "list_all (\<lambda>(days, w). 0 < w \<and> tf_data [\<lparr>Date = 0, stats = True\<rparr>] (timedelta 731) days = [])
        default_timeframes"
    by (simp add: default_timeframes_def tf_data_def timedelta_def)
  then have b: "\<forall>(days, w)\<in>set default_timeframes. 0 < w \<longrightarrow>
         tf_data [\<lparr>Date = 0, stats = True\<rparr>] (timedelta 731) days = []"
    by (auto simp: list_all_iff)
  have c: "(0::int) < 3 \<or> (0::int) < 10" by simp
  have d: "(None :: (int \<times> rat) list option) = None \<or> (None :: (int \<times> rat) list option) = Some []" by simp
  from old_history_only[OF a b c d, of stats] a l c show ?thesis by simp
qed

text \<open>
  The claim as first stated fails in two places. A row dated 730 days and 12 hours before
  the as-of date lies before every weighted window, yet the whole-day count of the history
  is 730, the all-history window is not added, and the answer is "no data". And with both
  minimums 0 the sample counts as sufficient and the final confidence is 0.51.
\<close>

theorem old_history_only_counterexample:
  "(\<exists>r\<in>set [\<lparr>Date = 0, stats = True\<rparr>]. Date r < timedelta 730 + 43200000000)
   \<and> list_all (\<lambda>(days, w). 0 < w
          \<and> tf_data [\<lparr>Date = 0, stats = True\<rparr>] (timedelta 730 + 43200000000) days = [])
        default_timeframes
   \<and> calculate_multi_timeframe_confidence [\<lparr>Date = 0, stats = True\<rparr>]
        (timedelta 730 + 43200000000) stats 3 10 None True
       = (1 / 2, Error ''No historical data available'')
   \<and> fst (calculate_multi_timeframe_confidence [\<lparr>Date = 0, stats = True\<rparr>]
        (timedelta 731) stats 0 0 None True)
       = 51 / 100"
  by (simp add: calculate_multi_timeframe_confidence_def select_timeframes_def earliest_date_def
      timedelta_def timedelta_days_def default_timeframes_def tf_data_def Let_def
      weighted_ensemble_def get_success_def get_matches_def success_rate_def
      trend_analysis_def std_dev_squared_def consistency_check_def sample_size_validation_def clamp01_def)

end
